theory Spec2Isabelle
  imports Main "HOL-Library.Sublist" "HOL-Library.Product_Lexorder"
begin

section \<open>Byte strings and ANSI escape handling (package ui)\<close>

text \<open>
  A Go string is a sequence of bytes; it is modelled as a \<open>string\<close> (a list of 8-bit
  characters).  \<open>len(s)\<close> is \<open>length s\<close>, \<open>s[i:j]\<close> is \<open>slice s i j\<close>.
\<close>

definition ESC :: char where
  "ESC = CHR 0x1B"

definition resetStyle :: string where
  "resetStyle = [CHR 0x1B, CHR ''['', CHR ''0'', CHR ''m'']"

definition slice :: "'a list \<Rightarrow> nat \<Rightarrow> nat \<Rightarrow> 'a list" where
  "slice s i j = take (j - i) (drop i s)"

text \<open>
  \<open>stripANSI\<close>: the loop over the bytes of \<open>s\<close> with its flag \<open>inEscape\<close>; the bytes
  written to the builder are the result.
\<close>

fun stripANSI_loop :: "bool \<Rightarrow> string \<Rightarrow> string" where
  "stripANSI_loop inEscape [] = []"
| "stripANSI_loop inEscape (ch # s) =
     (if ch = ESC then stripANSI_loop True s
      else if inEscape then
        (if ch = CHR ''m'' then stripANSI_loop False s else stripANSI_loop inEscape s)
      else ch # stripANSI_loop inEscape s)"

definition stripANSI :: "string \<Rightarrow> string" where
  "stripANSI s = stripANSI_loop False s"

text \<open>
  \<open>truncateANSI\<close>: the loop carries \<open>count\<close> and \<open>inEscape\<close>; it stops (\<open>break\<close>) at the
  first visible byte once \<open>count >= width\<close>.  The result of the loop is what was written
  to the builder before the reset code is appended.
\<close>

fun truncateANSI_loop :: "nat \<Rightarrow> nat \<Rightarrow> bool \<Rightarrow> string \<Rightarrow> string" where
  "truncateANSI_loop width count inEscape [] = []"
| "truncateANSI_loop width count inEscape (ch # s) =
     (let inEscape1 = (if ch = ESC then True else inEscape) in
      if \<not> inEscape1 \<and> count \<ge> width then []
      else
        let count1 = (if \<not> inEscape1 then count + 1 else count);
            inEscape2 = (if inEscape1 \<and> ch = CHR ''m'' then False else inEscape1)
        in ch # truncateANSI_loop width count1 inEscape2 s)"

definition truncateANSI :: "string \<Rightarrow> int \<Rightarrow> string" where
  "truncateANSI s width =
     (if width \<le> 0 then []
      else if int (length (stripANSI s)) \<le> width then s
      else truncateANSI_loop (nat width) 0 False s @ resetStyle)"

text \<open>
  The scanner state both loops share: whether a scan that starts in state \<open>e\<close> is inside an
  escape sequence after reading \<open>s\<close>.  It is used to say that a cut does not fall inside an
  escape sequence.
\<close>

fun inEscape_after :: "bool \<Rightarrow> string \<Rightarrow> bool" where
  "inEscape_after e [] = e"
| "inEscape_after e (ch # s) =
     (if ch = ESC then inEscape_after True s
      else if e then (if ch = CHR ''m'' then inEscape_after False s else inEscape_after e s)
      else inEscape_after e s)"

section \<open>The Go standard library as the code uses it\<close>

text \<open>
  The Unicode character tables (package \<open>unicode\<close>), the regular-expression compiler
  (package \<open>regexp\<close>) and the \<open>%q\<close> verb of package \<open>fmt\<close> are not part of the repository.
  They are parameters of the embedding, collected in one record that every function calling
  them receives as \<open>L\<close>.  A rune is a code point, a \<open>nat\<close>.  A compiled regular expression
  is modelled by what the code asks of it, \<open>FindAllStringIndex(line, -1)\<close>: the list of
  \<open>(start, end)\<close> byte offsets of its successive matches in the text.
\<close>

type_synonym rune = nat
type_synonym regexp = "string \<Rightarrow> (nat \<times> nat) list"

record golib =
  unicode_IsLetter :: "rune \<Rightarrow> bool"
  unicode_IsDigit :: "rune \<Rightarrow> bool"
  unicode_IsSpace :: "rune \<Rightarrow> bool"
  unicode_ToLower :: "rune \<Rightarrow> rune"
  regexp_Compile :: "string \<Rightarrow> string + regexp"
  fmt_q :: "string \<Rightarrow> string"

subsection \<open>UTF-8 (package unicode/utf8)\<close>

definition RuneError :: rune where
  "RuneError = 0xFFFD"

definition byte :: "char \<Rightarrow> nat" where
  "byte c = of_char c"

definition isCont :: "char \<Rightarrow> bool" where
  "isCont c = (0x80 \<le> byte c \<and> byte c \<le> 0xBF)"

text \<open>
  \<open>utf8.DecodeRuneInString\<close>: the rune at the head of the string and its width in bytes.
  A byte that does not start a well-formed encoding decodes to \<open>RuneError\<close> with width 1.
  The ranges accepted for the second byte are those of the library's \<open>acceptRanges\<close>.
\<close>

fun DecodeRuneInString :: "string \<Rightarrow> rune \<times> nat" where
  "DecodeRuneInString [] = (RuneError, 0)"
| "DecodeRuneInString (c0 # s) =
     (let b0 = byte c0 in
      if b0 < 0x80 then (b0, 1)
      else if 0xC2 \<le> b0 \<and> b0 \<le> 0xDF then
        (case s of
           c1 # _ \<Rightarrow>
             if isCont c1 then ((b0 mod 0x20) * 0x40 + byte c1 mod 0x40, 2)
             else (RuneError, 1)
         | _ \<Rightarrow> (RuneError, 1))
      else if 0xE0 \<le> b0 \<and> b0 \<le> 0xEF then
        (case s of
           c1 # c2 # _ \<Rightarrow>
             if (if b0 = 0xE0 then 0xA0 else 0x80) \<le> byte c1
                \<and> byte c1 \<le> (if b0 = 0xED then 0x9F else 0xBF) \<and> isCont c2
             then ((b0 mod 0x10) * 0x1000 + (byte c1 mod 0x40) * 0x40 + byte c2 mod 0x40, 3)
             else (RuneError, 1)
         | _ \<Rightarrow> (RuneError, 1))
      else if 0xF0 \<le> b0 \<and> b0 \<le> 0xF4 then
        (case s of
           c1 # c2 # c3 # _ \<Rightarrow>
             if (if b0 = 0xF0 then 0x90 else 0x80) \<le> byte c1
                \<and> byte c1 \<le> (if b0 = 0xF4 then 0x8F else 0xBF) \<and> isCont c2 \<and> isCont c3
             then ((b0 mod 0x08) * 0x40000 + (byte c1 mod 0x40) * 0x1000
                   + (byte c2 mod 0x40) * 0x40 + byte c3 mod 0x40, 4)
             else (RuneError, 1)
         | _ \<Rightarrow> (RuneError, 1))
      else (RuneError, 1))"

text \<open>
  The string cut into its runes, each with the bytes it was decoded from: what a
  \<open>for range\<close> loop over a string visits.
\<close>

fun chunks :: "string \<Rightarrow> (rune \<times> string) list" where
  "chunks [] = []"
| "chunks (c0 # s) =
     (let (r, w) = DecodeRuneInString (c0 # s)
      in (r, c0 # take (w - 1) s) # chunks (drop (w - 1) s))"

definition runes :: "string \<Rightarrow> rune list" where
  \<comment> \<open>the conversion \<open>[]rune(s)\<close>\<close>
  "runes s = map fst (chunks s)"

definition RuneCountInString :: "string \<Rightarrow> nat" where
  "RuneCountInString s = length (chunks s)"

definition EncodeRune :: "rune \<Rightarrow> string" where
  \<comment> \<open>what \<open>Builder.WriteRune\<close> appends; a surrogate or out-of-range value is written as
      \<open>RuneError\<close>\<close>
  "EncodeRune r0 =
     (let r = (if (0xD800 \<le> r0 \<and> r0 \<le> 0xDFFF) \<or> r0 > 0x10FFFF then RuneError else r0) in
      if r < 0x80 then [char_of r]
      else if r < 0x800 then [char_of (0xC0 + r div 0x40), char_of (0x80 + r mod 0x40)]
      else if r < 0x10000 then
        [char_of (0xE0 + r div 0x1000), char_of (0x80 + (r div 0x40) mod 0x40),
         char_of (0x80 + r mod 0x40)]
      else
        [char_of (0xF0 + r div 0x40000), char_of (0x80 + (r div 0x1000) mod 0x40),
         char_of (0x80 + (r div 0x40) mod 0x40), char_of (0x80 + r mod 0x40)])"

subsection \<open>Package strings\<close>

definition isASCII :: "string \<Rightarrow> bool" where
  "isASCII s = (\<forall>c \<in> set s. byte c < 0x80)"

definition asciiLower :: "char \<Rightarrow> char" where
  "asciiLower c = (if 0x41 \<le> byte c \<and> byte c \<le> 0x5A then char_of (byte c + 0x20) else c)"

text \<open>
  \<open>strings.ToLower\<close>: a string of ASCII bytes is lowered byte by byte; any other string goes
  through \<open>strings.Map(unicode.ToLower, s)\<close>, which decodes rune by rune and writes each
  mapped rune with \<open>WriteRune\<close> (an ill-formed byte is read as \<open>RuneError\<close>).
\<close>

definition strings_Map :: "(rune \<Rightarrow> rune) \<Rightarrow> string \<Rightarrow> string" where
  "strings_Map mapping s = concat (map (\<lambda>r. EncodeRune (mapping r)) (runes s))"

definition strings_ToLower :: "('z golib_scheme) \<Rightarrow> string \<Rightarrow> string" where
  "strings_ToLower L s =
     (if isASCII s then map asciiLower s else strings_Map (unicode_ToLower L) s)"

text \<open>
  \<open>strings.Index(s, substr)\<close>: the byte offset of the first occurrence, or \<open>-1\<close>;
  \<open>strings.Contains\<close> is \<open>Index >= 0\<close>.
\<close>

fun strings_Index :: "string \<Rightarrow> string \<Rightarrow> int" where
  "strings_Index [] substr = (if substr = [] then 0 else -1)"
| "strings_Index (c # s) substr =
     (if take (length substr) (c # s) = substr then 0
      else (let i = strings_Index s substr in if i < 0 then -1 else i + 1))"

definition strings_Contains :: "string \<Rightarrow> string \<Rightarrow> bool" where
  "strings_Contains s substr = (strings_Index s substr \<ge> 0)"

definition asciiSpace :: "char \<Rightarrow> bool" where
  \<comment> \<open>tab, newline, vertical tab, form feed, carriage return, space\<close>
  "asciiSpace c = (byte c \<in> {0x09, 0x0A, 0x0B, 0x0C, 0x0D, 0x20})"

text \<open>
  \<open>strings.TrimSpace\<close>: leading and trailing ASCII white space is cut byte by byte; at the
  first byte \<open>>= 0x80\<close> met from either end the library falls back to \<open>TrimFunc\<close> (from the
  left) or \<open>TrimRightFunc\<close> (from the right) with \<open>unicode.IsSpace\<close>, which cut whole runes.
\<close>

definition TrimLeftFunc :: "(rune \<Rightarrow> bool) \<Rightarrow> string \<Rightarrow> string" where
  "TrimLeftFunc f s = concat (map snd (dropWhile (\<lambda>c. f (fst c)) (chunks s)))"

definition TrimRightFunc :: "(rune \<Rightarrow> bool) \<Rightarrow> string \<Rightarrow> string" where
  "TrimRightFunc f s = concat (map snd (rev (dropWhile (\<lambda>c. f (fst c)) (rev (chunks s)))))"

definition trimSpaceRight :: "('z golib_scheme) \<Rightarrow> string \<Rightarrow> string" where
  "trimSpaceRight L s =
     (let kept = rev (dropWhile asciiSpace (rev s)) in
      if kept \<noteq> [] \<and> byte (last kept) \<ge> 0x80 then TrimRightFunc (unicode_IsSpace L) kept
      else kept)"

fun strings_TrimSpace :: "('z golib_scheme) \<Rightarrow> string \<Rightarrow> string" where
  "strings_TrimSpace L [] = []"
| "strings_TrimSpace L (c # s) =
     (if byte c \<ge> 0x80 then
        TrimRightFunc (unicode_IsSpace L) (TrimLeftFunc (unicode_IsSpace L) (c # s))
      else if asciiSpace c then strings_TrimSpace L s
      else trimSpaceRight L (c # s))"

fun strings_Join :: "string list \<Rightarrow> string \<Rightarrow> string" where
  "strings_Join [] sep = []"
| "strings_Join [e] sep = e"
| "strings_Join (e # e' # elems) sep = e @ sep @ strings_Join (e' # elems) sep"

section \<open>The rule engine (package color)\<close>

record Rule =
  Name :: string
  Regex :: "regexp option"  \<comment> \<open>\<open>None\<close> is the nil pointer\<close>
  Color :: string
  Style :: string
  Enabled :: bool

record CustomRule =
  Pattern :: string
  CustomColor :: string
  CustomStyle :: string

record span =
  span_start :: nat
  span_end :: nat
  span_color :: string
  span_style :: string

definition ansiColors :: "string \<Rightarrow> string option" where
  "ansiColors name = map_of
     [(''black'', ''30''), (''red'', ''31''), (''green'', ''32''), (''yellow'', ''33''),
      (''blue'', ''34''), (''magenta'', ''35''), (''cyan'', ''36''), (''white'', ''37''),
      (''gray'', ''90'')] name"

definition ansiStyles :: "string \<Rightarrow> string option" where
  "ansiStyles name = map_of [(''bold'', ''1''), (''dim'', ''2''), (''underline'', ''4'')] name"

definition reset :: string where
  "reset = [CHR 0x1B, CHR ''['', CHR ''0'', CHR ''m'']"

definition colorCode :: "('z golib_scheme) \<Rightarrow> string \<Rightarrow> string \<Rightarrow> string" where
  "colorCode L colorName0 style0 =
     (let colorName = strings_ToLower L colorName0;
          style = strings_ToLower L style0;
          parts1 = (if style \<noteq> [] then
                      (case ansiStyles style of Some s \<Rightarrow> [s] | None \<Rightarrow> [])
                    else []);
          parts2 = (if colorName \<noteq> [] then
                      (case ansiColors colorName of Some c \<Rightarrow> parts1 @ [c] | None \<Rightarrow> parts1)
                    else parts1)
      in strings_Join parts2 '';'')"

definition Wrap :: "('z golib_scheme) \<Rightarrow> string \<Rightarrow> string \<Rightarrow> string \<Rightarrow> string" where
  "Wrap L text colorName style =
     (let code = colorCode L colorName style in
      if code = [] then text
      else [CHR 0x1B, CHR ''[''] @ code @ ''m'' @ text @ reset)"

text \<open>
  \<open>ApplyRules\<close>.  The state of the two nested loops is the slice \<open>occupied\<close> and the list
  \<open>spans\<close>.  \<open>claimMatches\<close> is the inner loop over the matches of one rule,
  \<open>claimRules\<close> the outer loop over the rules.  Match offsets come from
  \<open>FindAllStringIndex\<close> on \<open>line\<close> and so lie within \<open>line\<close>.
\<close>

definition isOccupied :: "bool list \<Rightarrow> nat \<Rightarrow> nat \<Rightarrow> bool" where
  \<comment> \<open>the loop that sets \<open>skip\<close>\<close>
  "isOccupied occupied start stop = list_ex (\<lambda>i. occupied ! i) [start..<stop]"

definition occupy :: "bool list \<Rightarrow> nat \<Rightarrow> nat \<Rightarrow> bool list" where
  \<comment> \<open>the loop that sets \<open>occupied[i] = true\<close>\<close>
  "occupy occupied start stop = fold (\<lambda>i occ. occ[i := True]) [start..<stop] occupied"

fun claimMatches ::
  "Rule \<Rightarrow> (nat \<times> nat) list \<Rightarrow> bool list \<times> span list \<Rightarrow> bool list \<times> span list" where
  "claimMatches rule [] st = st"
| "claimMatches rule ((start, stop) # indices) (occupied, spans) =
     (if start \<ge> stop then claimMatches rule indices (occupied, spans)
      else if isOccupied occupied start stop then claimMatches rule indices (occupied, spans)
      else claimMatches rule indices
             (occupy occupied start stop,
              spans @ [\<lparr>span_start = start, span_end = stop,
                        span_color = Color rule, span_style = Style rule\<rparr>]))"

fun claimRules :: "string \<Rightarrow> Rule list \<Rightarrow> bool list \<times> span list \<Rightarrow> bool list \<times> span list" where
  "claimRules line [] st = st"
| "claimRules line (rule # rules) st =
     (if \<not> Enabled rule \<or> Regex rule = None then claimRules line rules st
      else claimRules line rules (claimMatches rule (the (Regex rule) line) st))"

fun stitch :: "('z golib_scheme) \<Rightarrow> string \<Rightarrow> nat \<Rightarrow> span list \<Rightarrow> string" where
  "stitch L line pos [] = drop pos line"
| "stitch L line pos (sp # spans) =
     (if span_start sp < pos then stitch L line pos spans
      else slice line pos (span_start sp)
           @ Wrap L (slice line (span_start sp) (span_end sp)) (span_color sp) (span_style sp)
           @ stitch L line (span_end sp) spans)"

definition sortSpans :: "span list \<Rightarrow> span list" where
  \<comment> \<open>\<open>sort.Slice\<close> with the order on \<open>(start, end)\<close>\<close>
  "sortSpans spans = sort_key (\<lambda>sp. (span_start sp, span_end sp)) spans"

definition collectSpans :: "string \<Rightarrow> Rule list \<Rightarrow> span list" where
  "collectSpans line rules = snd (claimRules line rules (replicate (length line) False, []))"

definition ApplyRules :: "('z golib_scheme) \<Rightarrow> string \<Rightarrow> Rule list \<Rightarrow> string" where
  "ApplyRules L line rules =
     (if rules = [] \<or> line = [] then line
      else
        let spans = collectSpans line rules in
        if spans = [] then line
        else stitch L line 0 (sortSpans spans))"

text \<open>
  \<open>BuildRules\<close>.  An \<open>error\<close> is modelled by its message.  \<open>toRule\<close> formats the message with
  \<open>fmt.Errorf("invalid custom rule regex %q: %w", r.Pattern, err)\<close>: the pattern rendered by
  the verb \<open>%q\<close> (a quoted Go string literal), then the compiler's own message.
\<close>

definition toRule :: "('z golib_scheme) \<Rightarrow> CustomRule \<Rightarrow> string + Rule" where
  "toRule L r =
     (case regexp_Compile L (Pattern r) of
        Inl err \<Rightarrow> Inl (''invalid custom rule regex '' @ fmt_q L (Pattern r) @ '': '' @ err)
      | Inr re \<Rightarrow>
          Inr \<lparr>Name = ''custom'', Regex = Some re, Color = CustomColor r,
               Style = CustomStyle r, Enabled = True\<rparr>)"

definition applyDefault ::
  "('z golib_scheme) \<Rightarrow> (string \<rightharpoonup> string) \<Rightarrow> string list \<Rightarrow> Rule \<Rightarrow> Rule" where
  \<comment> \<open>the body of the loop over \<open>defaults\<close>; \<open>disabled\<close> holds the lowered names of \<open>disable\<close>\<close>
  "applyDefault L overrides disable rule0 =
     (let rule = rule0\<lparr>Enabled :=
                   strings_ToLower L (Name rule0) \<notin> set (map (strings_ToLower L) disable)\<rparr>
      in case overrides (strings_ToLower L (Name rule)) of
           Some colorOverride \<Rightarrow> rule\<lparr>Color := colorOverride\<rparr>
         | None \<Rightarrow> rule)"

fun appendCustom :: "('z golib_scheme) \<Rightarrow> CustomRule list \<Rightarrow> Rule list \<Rightarrow> string + Rule list" where
  "appendCustom L [] rules = Inr rules"
| "appendCustom L (customRule # custom) rules =
     (case toRule L customRule of
        Inl err \<Rightarrow> Inl err
      | Inr r \<Rightarrow> appendCustom L custom (rules @ [r]))"

definition BuildRules ::
  "('z golib_scheme) \<Rightarrow> Rule list \<Rightarrow> (string \<rightharpoonup> string) \<Rightarrow> string list \<Rightarrow> CustomRule list
     \<Rightarrow> string + Rule list" where
  "BuildRules L defaults overrides disable custom =
     appendCustom L custom (map (applyDefault L overrides disable) defaults)"

text \<open>
  \<open>BuildDefaultRules\<close>.  The pattern literals are compiled by the external regular-expression
  engine; the argument \<open>compiled\<close> gives, for the name of each built-in rule, the regexp
  that \<open>regexp.MustCompile\<close> returns for the rule's pattern.  Fields the literal leaves out
  have Go's zero value (\<open>Style\<close> is the empty string).
\<close>

definition builtin :: "(string \<Rightarrow> regexp) \<Rightarrow> string \<Rightarrow> string \<Rightarrow> string \<Rightarrow> Rule" where
  "builtin compiled name color style =
     \<lparr>Name = name, Regex = Some (compiled name), Color = color, Style = style, Enabled = True\<rparr>"

definition BuildDefaultRules :: "(string \<Rightarrow> regexp) \<Rightarrow> Rule list" where
  "BuildDefaultRules compiled =
     [builtin compiled ''timestamp'' ''cyan'' [],
      builtin compiled ''url'' ''blue'' [],
      builtin compiled ''ipv4'' ''yellow'' [],
      builtin compiled ''ipv6'' ''yellow'' [],
      builtin compiled ''mac'' ''yellow'' [],
      builtin compiled ''port'' ''magenta'' [],
      builtin compiled ''path'' ''green'' [],
      builtin compiled ''level_error'' ''red'' ''bold'',
      builtin compiled ''level_warn'' ''yellow'' ''bold'',
      builtin compiled ''level_info'' ''blue'' ''bold'',
      builtin compiled ''level_debug'' ''magenta'' ''bold'',
      builtin compiled ''level_trace'' ''gray'' ''bold'',
      builtin compiled ''fail'' ''red'' ''bold'',
      builtin compiled ''success'' ''green'' ''bold'',
      builtin compiled ''keyword'' ''magenta'' []]"

section \<open>The viewer state machine (package ui)\<close>

text \<open>
  Go's \<open>int\<close> is modelled by \<open>int\<close>: cursor, column and index values stay between \<open>-1\<close> and
  the size of the text, far from the 64-bit bounds.  The field \<open>Wrap\<close> of the struct is
  called \<open>WrapOn\<close> here, since \<open>Wrap\<close> is the function of package color.  A run-time panic
  (an index or a slice bound out of range) is a value of type \<open>panic\<close>.
\<close>

datatype panic = IndexOutOfRange | SliceBoundsOutOfRange

record Position =
  Line :: int
  Col :: int

datatype SelectionMode = SelectNone | SelectChar | SelectLine | SelectBlock

record Viewer =
  Lines :: "string list"
  Rules :: "Rule list"
  Plain :: bool
  Cursor :: int
  CursorCol :: int
  GoalCol :: int
  Top :: int
  TopSub :: int
  Query :: string
  Matches :: "int list"
  MatchIndex :: int
  SelectStart :: "Position option"
  SelectMode :: SelectionMode
  Status :: string
  StatusAtTop :: bool
  LineNumbers :: bool
  WrapOn :: bool
  HOffset :: int
  Follow :: bool
  InPrompt :: bool

definition newViewer ::
  "string list \<Rightarrow> Rule list \<Rightarrow> bool \<Rightarrow> bool \<Rightarrow> bool \<Rightarrow> bool \<Rightarrow> Viewer" where
  \<comment> \<open>the struct literal in \<open>Run\<close>; the fields it leaves out have their zero value\<close>
  "newViewer lines rules plain statusAtTop lineNumbers follow =
     \<lparr>Lines = lines, Rules = rules, Plain = plain, Cursor = 0, CursorCol = 0, GoalCol = 0,
      Top = 0, TopSub = 0, Query = [], Matches = [], MatchIndex = 0, SelectStart = None,
      SelectMode = SelectNone, Status = [], StatusAtTop = statusAtTop,
      LineNumbers = lineNumbers, WrapOn = False, HOffset = 0, Follow = follow,
      InPrompt = False\<rparr>"

definition lineCount :: "Viewer \<Rightarrow> int" where
  \<comment> \<open>\<open>len(v.Lines)\<close>\<close>
  "lineCount v = int (length (Lines v))"

definition lineRuneCount :: "Viewer \<Rightarrow> int \<Rightarrow> int" where
  "lineRuneCount v idx =
     (if idx < 0 \<or> idx \<ge> lineCount v then 0
      else int (RuneCountInString (Lines v ! nat idx)))"

definition isWordRune :: "('z golib_scheme) \<Rightarrow> rune \<Rightarrow> bool" where
  "isWordRune L r = (r = 0x5F \<or> unicode_IsLetter L r \<or> unicode_IsDigit L r)"

definition maxColOf :: "Viewer \<Rightarrow> int" where
  \<comment> \<open>\<open>maxCol := v.lineRuneCount(v.Cursor); if maxCol > 0 { maxCol-- }\<close>\<close>
  "maxColOf v = (let maxCol = lineRuneCount v (Cursor v) in
                 if maxCol > 0 then maxCol - 1 else maxCol)"

definition clampCursor :: "Viewer \<Rightarrow> Viewer" where
  "clampCursor v0 =
     (let v1 = (if Cursor v0 < 0 then v0\<lparr>Cursor := 0\<rparr> else v0);
          v2 = (if Cursor v1 \<ge> lineCount v1 then v1\<lparr>Cursor := lineCount v1 - 1\<rparr> else v1);
          v3 = (if lineCount v2 = 0 then v2\<lparr>Cursor := 0\<rparr> else v2);
          maxCol = maxColOf v3;
          v4 = (if CursorCol v3 < 0 then v3\<lparr>CursorCol := 0\<rparr> else v3)
      in if CursorCol v4 > maxCol then v4\<lparr>CursorCol := maxCol\<rparr> else v4)"

definition applyGoalCol :: "Viewer \<Rightarrow> Viewer" where
  "applyGoalCol v0 =
     (let v1 = (if GoalCol v0 < 0 then v0\<lparr>GoalCol := 0\<rparr> else v0);
          maxCol = maxColOf v1;
          v2 = (if GoalCol v1 > maxCol then v1\<lparr>CursorCol := maxCol\<rparr>
                else v1\<lparr>CursorCol := GoalCol v1\<rparr>)
      in if CursorCol v2 < 0 then v2\<lparr>CursorCol := 0\<rparr> else v2)"

definition moveCursor :: "Viewer \<Rightarrow> int \<Rightarrow> Viewer" where
  "moveCursor v delta =
     (applyGoalCol (clampCursor (v\<lparr>Cursor := Cursor v + delta\<rparr>)))\<lparr>Status := []\<rparr>"

definition moveCursorCol :: "Viewer \<Rightarrow> int \<Rightarrow> Viewer" where
  "moveCursorCol v delta =
     (let v1 = clampCursor (v\<lparr>CursorCol := CursorCol v + delta\<rparr>)
      in v1\<lparr>GoalCol := CursorCol v1, Status := []\<rparr>)"

definition moveLineStart :: "Viewer \<Rightarrow> Viewer" where
  "moveLineStart v =
     (let v1 = clampCursor (v\<lparr>CursorCol := 0\<rparr>)
      in v1\<lparr>GoalCol := CursorCol v1, Status := []\<rparr>)"

definition moveLineEnd :: "Viewer \<Rightarrow> Viewer" where
  "moveLineEnd v =
     (let v1 = clampCursor (v\<lparr>CursorCol := maxColOf v\<rparr>)
      in v1\<lparr>GoalCol := CursorCol v1, Status := []\<rparr>)"

definition page :: "Viewer \<Rightarrow> int \<Rightarrow> int \<Rightarrow> Viewer" where
  \<comment> \<open>\<open>height\<close> is what \<open>term.GetSize\<close> returns\<close>
  "page v height delta =
     (let contentHeight = (if height - 2 < 1 then 1 else height - 2)
      in applyGoalCol (clampCursor (v\<lparr>Cursor := Cursor v + delta * contentHeight\<rparr>)))"

definition cursorTop :: "Viewer \<Rightarrow> Viewer" where
  "cursorTop v = v\<lparr>Cursor := 0, CursorCol := 0, GoalCol := 0, Status := []\<rparr>"

definition cursorBottom :: "Viewer \<Rightarrow> Viewer" where
  "cursorBottom v =
     (if lineCount v = 0 then v\<lparr>Cursor := 0, CursorCol := 0, GoalCol := 0\<rparr>
      else v\<lparr>Cursor := lineCount v - 1, CursorCol := 0, GoalCol := 0, Status := []\<rparr>)"

definition toggleWrap :: "Viewer \<Rightarrow> Viewer" where
  "toggleWrap v = v\<lparr>WrapOn := \<not> WrapOn v, HOffset := 0, TopSub := 0, Status := []\<rparr>"

definition clearSelection :: "Viewer \<Rightarrow> Viewer" where
  "clearSelection v =
     v\<lparr>SelectMode := SelectNone, SelectStart := None, Status := ''selection cleared''\<rparr>"

definition toggleSelect :: "Viewer \<Rightarrow> SelectionMode \<Rightarrow> Viewer" where
  "toggleSelect v mode =
     (if SelectMode v = mode \<and> SelectStart v \<noteq> None then clearSelection v
      else
        let startCol = (if mode = SelectBlock then GoalCol v else CursorCol v);
            v1 = v\<lparr>SelectMode := mode,
                   SelectStart := Some \<lparr>Line = Cursor v, Col = startCol\<rparr>\<rparr>
        in case mode of
             SelectChar \<Rightarrow> v1\<lparr>Status := ''visual''\<rparr>
           | SelectLine \<Rightarrow> v1\<lparr>Status := ''visual-line''\<rparr>
           | SelectBlock \<Rightarrow> v1\<lparr>Status := ''visual-block''\<rparr>
           | SelectNone \<Rightarrow> v1)"


subsection \<open>Word motion\<close>

function skipRunes :: "(rune \<Rightarrow> bool) \<Rightarrow> rune list \<Rightarrow> nat \<Rightarrow> nat" where
  \<comment> \<open>\<open>for pos < len(line) && p(line[pos]) { pos++ }\<close>\<close>
  "skipRunes p line pos =
     (if pos < length line \<and> p (line ! pos) then skipRunes p line (pos + 1) else pos)"
  by pat_completeness auto
termination
  by (relation "measure (\<lambda>(p, line, pos). length line - pos)") auto

definition landAt :: "Viewer \<Rightarrow> int \<Rightarrow> int \<Rightarrow> Viewer" where
  \<comment> \<open>\<open>v.Cursor = lineIdx; v.CursorCol = col; v.clampCursor(); v.Status = ""\<close>\<close>
  "landAt v lineIdx col = (clampCursor (v\<lparr>Cursor := lineIdx, CursorCol := col\<rparr>))\<lparr>Status := []\<rparr>"

definition landAtGoal :: "Viewer \<Rightarrow> int \<Rightarrow> int \<Rightarrow> Viewer" where
  \<comment> \<open>the same, with \<open>v.GoalCol = v.CursorCol\<close> after the clamp\<close>
  "landAtGoal v lineIdx col =
     (let v1 = clampCursor (v\<lparr>Cursor := lineIdx, CursorCol := col\<rparr>)
      in v1\<lparr>GoalCol := CursorCol v1, Status := []\<rparr>)"

function wordForwardLoop :: "('z golib_scheme) \<Rightarrow> Viewer \<Rightarrow> int \<Rightarrow> int \<Rightarrow> panic + Viewer" where
  "wordForwardLoop L v lineIdx col0 =
     (if lineIdx < 0 \<or> lineIdx \<ge> lineCount v then Inl IndexOutOfRange
      else
        let line = runes (Lines v ! nat lineIdx) in
        if length line = 0 then
          (if lineIdx + 1 \<ge> lineCount v then Inr (landAt v lineIdx 0)
           else wordForwardLoop L v (lineIdx + 1) 0)
        else
          let col = (if col0 < 0 then 0 else col0) in
          if col \<ge> int (length line) then
            (if lineIdx + 1 \<ge> lineCount v then Inr (landAt v lineIdx (int (length line) - 1))
             else wordForwardLoop L v (lineIdx + 1) 0)
          else
            let pos0 = nat col;
                pos1 = (if isWordRune L (line ! pos0) then skipRunes (isWordRune L) line pos0
                        else pos0);
                pos = skipRunes (\<lambda>r. \<not> isWordRune L r) line pos1
            in if pos < length line then Inr (landAtGoal v lineIdx (int pos))
               else if lineIdx + 1 \<ge> lineCount v
               then Inr (landAt v lineIdx (int (length line) - 1))
               else wordForwardLoop L v (lineIdx + 1) 0)"
  by pat_completeness auto
termination
  by (relation "measure (\<lambda>(L, v, lineIdx, col0). nat (lineCount v - lineIdx))") auto

declare skipRunes.simps [simp del] wordForwardLoop.simps [simp del]

definition moveWordForward :: "('z golib_scheme) \<Rightarrow> Viewer \<Rightarrow> panic + Viewer" where
  "moveWordForward L v =
     (if length (Lines v) = 0 then Inr v else wordForwardLoop L v (Cursor v) (CursorCol v))"

subsection \<open>Search\<close>

definition matchColForLine :: "('z golib_scheme) \<Rightarrow> Viewer \<Rightarrow> int \<Rightarrow> panic + int" where
  "matchColForLine L v lineIdx =
     (if lineIdx < 0 \<or> lineIdx \<ge> lineCount v then Inr 0
      else if Query v = [] then Inr 0
      else
        let line = Lines v ! nat lineIdx;
            lowerLine = strings_ToLower L line;
            lowerQuery = strings_ToLower L (Query v);
            idx = strings_Index lowerLine lowerQuery
        in if idx = -1 then Inr 0
           else if idx > int (length line) then Inl SliceBoundsOutOfRange
           else Inr (int (RuneCountInString (take (nat idx) line))))"

fun scanMatches :: "('z golib_scheme) \<Rightarrow> string \<Rightarrow> string list \<Rightarrow> int \<Rightarrow> int list" where
  \<comment> \<open>the loop \<open>for i, line := range v.Lines\<close>, from index \<open>i\<close> on\<close>
  "scanMatches L lowerQuery [] i = []"
| "scanMatches L lowerQuery (line # lines) i =
     (if strings_Contains (strings_ToLower L line) lowerQuery
      then i # scanMatches L lowerQuery lines (i + 1)
      else scanMatches L lowerQuery lines (i + 1))"

fun firstAtOrAfter :: "int list \<Rightarrow> int \<Rightarrow> int \<Rightarrow> int" where
  \<comment> \<open>\<open>for i, line := range v.Matches { if line >= v.Cursor { return i } }; return 0\<close>\<close>
  "firstAtOrAfter [] cursor i = 0"
| "firstAtOrAfter (line # matches) cursor i =
     (if line \<ge> cursor then i else firstAtOrAfter matches cursor (i + 1))"

fun lastAtOrBefore :: "int list \<Rightarrow> int \<Rightarrow> nat \<Rightarrow> int" where
  \<comment> \<open>the loop \<open>for i := len(v.Matches) - 1; i >= 0; i--\<close>, entered with \<open>i = n - 1\<close>\<close>
  "lastAtOrBefore matches cursor 0 = int (length matches) - 1"
| "lastAtOrBefore matches cursor (Suc i) =
     (if matches ! i \<le> cursor then int i else lastAtOrBefore matches cursor i)"

definition closestMatchIndex :: "Viewer \<Rightarrow> int \<Rightarrow> int" where
  "closestMatchIndex v dir =
     (if length (Matches v) = 0 then 0
      else if dir \<ge> 0 then firstAtOrAfter (Matches v) (Cursor v) 0
      else lastAtOrBefore (Matches v) (Cursor v) (length (Matches v)))"

definition jumpToMatch :: "('z golib_scheme) \<Rightarrow> Viewer \<Rightarrow> panic + Viewer" where
  \<comment> \<open>the four statements that end both \<open>setQuery\<close> and \<open>nextMatch\<close>\<close>
  "jumpToMatch L v =
     (if MatchIndex v < 0 \<or> MatchIndex v \<ge> int (length (Matches v)) then Inl IndexOutOfRange
      else
        let v1 = v\<lparr>Cursor := Matches v ! nat (MatchIndex v)\<rparr> in
        case matchColForLine L v1 (Cursor v1) of
          Inl e \<Rightarrow> Inl e
        | Inr col \<Rightarrow> Inr (v1\<lparr>CursorCol := col, GoalCol := col, Status := []\<rparr>))"

definition setQuery :: "('z golib_scheme) \<Rightarrow> Viewer \<Rightarrow> string \<Rightarrow> int \<Rightarrow> panic + Viewer" where
  "setQuery L v query dir =
     (let v1 = v\<lparr>Query := strings_TrimSpace L query, Matches := [], MatchIndex := 0\<rparr> in
      if Query v1 = [] then Inr v1
      else
        let lowerQuery = strings_ToLower L (Query v1);
            v2 = v1\<lparr>Matches := scanMatches L lowerQuery (Lines v1) 0\<rparr>
        in if length (Matches v2) = 0 then Inr (v2\<lparr>Status := ''no matches''\<rparr>)
           else jumpToMatch L (v2\<lparr>MatchIndex := closestMatchIndex v2 dir\<rparr>))"

definition nextMatch :: "('z golib_scheme) \<Rightarrow> Viewer \<Rightarrow> int \<Rightarrow> panic + Viewer" where
  "nextMatch L v dir =
     (if length (Matches v) = 0 then Inr (v\<lparr>Status := ''no matches''\<rparr>)
      else
        let v1 = v\<lparr>MatchIndex := MatchIndex v + dir\<rparr>;
            v2 = (if MatchIndex v1 < 0 then v1\<lparr>MatchIndex := int (length (Matches v1)) - 1\<rparr>
                  else v1);
            v3 = (if MatchIndex v2 \<ge> int (length (Matches v2)) then v2\<lparr>MatchIndex := 0\<rparr>
                  else v2)
        in jumpToMatch L v3)"

section \<open>An excerpt of the library for closed examples\<close>

text \<open>
  Closed examples need a concrete library.  \<open>sampleLib\<close> has the tables of package unicode
  on ASCII and at U+023A (LATIN CAPITAL LETTER A WITH STROKE, whose lower case is U+2C65);
  its compiler rejects the pattern \<open>(\<close> with the message Go gives and stands for any other
  pattern by a regexp without matches; its \<open>%q\<close> puts the string between double quotes, as
  Go does for printable ASCII without quote or backslash.  The examples consult it only
  there.
\<close>

definition sampleLib :: golib where
  "sampleLib =
     \<lparr>unicode_IsLetter = (\<lambda>r. (0x41 \<le> r \<and> r \<le> 0x5A) \<or> (0x61 \<le> r \<and> r \<le> 0x7A)),
      unicode_IsDigit = (\<lambda>r. 0x30 \<le> r \<and> r \<le> 0x39),
      unicode_IsSpace = (\<lambda>r. r \<in> {0x09, 0x0A, 0x0B, 0x0C, 0x0D, 0x20}),
      unicode_ToLower =
        (\<lambda>r. if 0x41 \<le> r \<and> r \<le> 0x5A then r + 0x20 else if r = 0x23A then 0x2C65 else r),
      regexp_Compile =
        (\<lambda>p. if p = ''('' then Inl ''error parsing regexp: missing closing ): `(`''
             else Inr (\<lambda>line. [])),
      fmt_q = (\<lambda>s. [CHR 0x22] @ s @ [CHR 0x22])\<rparr>"

text \<open>
  The line of the example in the specification, and the matches Go's regexp engine finds on
  it for the patterns of the built-in rules: the timestamp pattern matches bytes 0 to 20,
  the ipv6 pattern the bytes \<open>:00:\<close> at 13 to 17, the port pattern \<open>:00\<close> at 13 to 16, the
  success pattern \<open>connected\<close> at 21 to 30; no other pattern matches.
\<close>

definition exampleLine :: string where
  "exampleLine = ''2024-01-02T10:00:00Z connected''"

definition exampleCompiled :: "string \<Rightarrow> regexp" where
  "exampleCompiled name line =
     (if line \<noteq> exampleLine then []
      else if name = ''timestamp'' then [(0, 20)]
      else if name = ''ipv6'' then [(13, 17)]
      else if name = ''port'' then [(13, 16)]
      else if name = ''success'' then [(21, 30)]
      else [])"

section \<open>Visible width (package ui)\<close>

definition visibleWidth :: "string \<Rightarrow> int" where
  \<comment> \<open>\<open>utf8.RuneCountInString(stripANSI(s))\<close>: the number of visible characters\<close>
  "visibleWidth s = int (RuneCountInString (stripANSI s))"

definition padRight :: "string \<Rightarrow> int \<Rightarrow> string" where
  "padRight s width =
     (if width \<le> 0 then s
      else if int (length (stripANSI s)) \<ge> width then truncateANSI s width
      else s @ replicate (nat (width - int (length (stripANSI s)))) (CHR '' ''))"

text \<open>
  The key reference of the status line, the literal \<open>help\<close> of \<open>statusLine\<close>; its separators
  are the bullet U+2022, three bytes each in UTF-8.  On a terminal of 80 columns with a line
  indicator of five characters \<open>statusLine\<close> calls \<open>padRight(help, 75)\<close>, which calls
  \<open>truncateANSI(help, 75)\<close>.
\<close>

definition statusHelp :: string where
  "statusHelp =
     ''q quit '' @ [CHR 0xE2, CHR 0x80, CHR 0xA2] @ '' / ? search '' @
     [CHR 0xE2, CHR 0x80, CHR 0xA2] @ '' n/N next '' @ [CHR 0xE2, CHR 0x80, CHR 0xA2] @
     '' h/j/k/l move '' @ [CHR 0xE2, CHR 0x80, CHR 0xA2] @ '' w/b/e word '' @
     [CHR 0xE2, CHR 0x80, CHR 0xA2] @ '' 0/$/I/A line '' @ [CHR 0xE2, CHR 0x80, CHR 0xA2] @
     '' g/G top/bot '' @ [CHR 0xE2, CHR 0x80, CHR 0xA2] @ '' v/V/ctrl-v select '' @
     [CHR 0xE2, CHR 0x80, CHR 0xA2] @ '' y yank '' @ [CHR 0xE2, CHR 0x80, CHR 0xA2] @
     '' L line# '' @ [CHR 0xE2, CHR 0x80, CHR 0xA2] @ '' W wrap''"

definition bullets5 :: string where
  \<comment> \<open>five bullets U+2022\<close>
  "bullets5 =
     [CHR 0xE2, CHR 0x80, CHR 0xA2, CHR 0xE2, CHR 0x80, CHR 0xA2, CHR 0xE2, CHR 0x80, CHR 0xA2,
      CHR 0xE2, CHR 0x80, CHR 0xA2, CHR 0xE2, CHR 0x80, CHR 0xA2]"

definition codeByte :: "char \<Rightarrow> bool" where
  \<comment> \<open>a byte that neither starts nor ends an escape sequence\<close>
  "codeByte c = (c \<noteq> ESC \<and> c \<noteq> CHR ''m'')"

section \<open>Viewer states and rules of the closed examples\<close>




definition viewerScrolled :: Viewer where
  \<comment> \<open>a viewer with a horizontal offset and a wrap-segment scroll index\<close>
  "viewerScrolled =
     (newViewer [''one'', ''two'', ''three''] [] False False True False)
       \<lparr>Cursor := 1, CursorCol := 2, HOffset := 5, TopSub := 2\<rparr>"

definition getRule :: Rule where
  \<comment> \<open>a rule whose regexp matches the first three bytes of the text\<close>
  "getRule = \<lparr>Name = ''custom'', Regex = Some (\<lambda>line. [(0, 3)]), Color = ''Red'',
              Style = [], Enabled = True\<rparr>"

definition viewerLastWord :: Viewer where
  \<comment> \<open>the only line is \<open>ab.\<close>; the cursor is on \<open>b\<close>, its last word-constituent rune\<close>
  "viewerLastWord = (newViewer [''ab.''] [] False False True False)\<lparr>CursorCol := 1\<rparr>"

definition viewerLastRune :: Viewer where
  \<comment> \<open>the last line is \<open>cd\<close>; the cursor is on \<open>d\<close>, its last rune\<close>
  "viewerLastRune =
     (newViewer [''ab.'', ''cd''] [] False False True False)\<lparr>Cursor := 1, CursorCol := 1\<rparr>"

definition lineAStroke :: string where
  \<comment> \<open>U+023A (two bytes in UTF-8) followed by \<open>x\<close>: two runes\<close>
  "lineAStroke = [CHR 0xC8, CHR 0xBA, CHR ''x'']"

definition viewerAStroke :: Viewer where
  "viewerAStroke = newViewer [lineAStroke] [] False False True False"

definition viewerAStrokeFound :: Viewer where
  \<comment> \<open>\<open>viewerAStroke\<close> after a redraw that follows the search for \<open>x\<close>: the query and the
      match list of the search, the cursor clamped by \<open>draw\<close> to column 1, where \<open>x\<close> is\<close>
  "viewerAStrokeFound =
     viewerAStroke\<lparr>Query := ''x'', Matches := [0], MatchIndex := 0,
                    CursorCol := 1, GoalCol := 1\<rparr>"

definition viewerErrorLines :: Viewer where
  "viewerErrorLines = newViewer [''a'', ''ERROR here'', ''b''] [] False False True False"

definition viewerThreeMatches :: Viewer where
  \<comment> \<open>ten lines; lines 2, 5 and 9 contain the query; the current match is line 9\<close>
  "viewerThreeMatches =
     (newViewer [''0'', ''1'', ''x2'', ''3'', ''4'', ''x5'', ''6'', ''7'', ''8'', ''9 x'']
        [] False False True False)
       \<lparr>Query := ''x'', Matches := [2, 5, 9], MatchIndex := 2, Cursor := 9, CursorCol := 2,
        GoalCol := 2\<rparr>"

section \<open>Properties of the ANSI scanner\<close>

lemma stripANSI_loop_append:
  "stripANSI_loop e (p @ q) = stripANSI_loop e p @ stripANSI_loop (inEscape_after e p) q"
  by (induction p arbitrary: e) auto

lemma stripANSI_loop_reset: "stripANSI_loop e resetStyle = []"
  by (cases e) (simp_all add: resetStyle_def ESC_def)

lemma truncateANSI_loop_prefix: "prefix (truncateANSI_loop w c e s) s"
  by (induction s arbitrary: c e) (auto simp: Let_def)

lemma truncateANSI_loop_strip:
  "c \<le> w \<Longrightarrow>
   stripANSI_loop e (truncateANSI_loop w c e s) = take (w - c) (stripANSI_loop e s)"
proof (induction s arbitrary: c e)
  case Nil
  then show ?case by simp
next
  case (Cons ch s)
  show ?case
  proof (cases "ch = ESC")
    case True
    with Cons show ?thesis by (simp add: Let_def ESC_def)
  next
    case notesc: False
    show ?thesis
    proof (cases e)
      case True
      with notesc Cons show ?thesis by (simp add: Let_def)
    next
      case False
      show ?thesis
      proof (cases "c \<ge> w")
        case True
        with False notesc Cons.prems show ?thesis by (simp add: Let_def)
      next
        case lt: False
        then have "Suc c \<le> w" by simp
        from Cons.IH [OF this, of False] False notesc lt show ?thesis
          by (simp add: Let_def take_Cons' Suc_diff_Suc)
      qed
    qed
  qed
qed

lemma truncateANSI_loop_state:
  "c \<le> w \<Longrightarrow> w - c < length (stripANSI_loop e s) \<Longrightarrow>
   \<not> inEscape_after e (truncateANSI_loop w c e s)"
proof (induction s arbitrary: c e)
  case Nil
  then show ?case by simp
next
  case (Cons ch s)
  show ?case
  proof (cases "ch = ESC")
    case True
    with Cons show ?thesis by (simp add: Let_def ESC_def)
  next
    case notesc: False
    show ?thesis
    proof (cases e)
      case True
      with notesc Cons.prems Cons.IH [of c False] Cons.IH [of c True] show ?thesis
        by (auto simp: Let_def split: if_splits)
    next
      case False
      show ?thesis
      proof (cases "c \<ge> w")
        case True
        with False notesc show ?thesis by (simp add: Let_def)
      next
        case lt: False
        then have le: "Suc c \<le> w" by simp
        from Cons.prems(2) False notesc lt
        have "w - Suc c < length (stripANSI_loop False s)" by simp
        from Cons.IH [OF le this] False notesc lt show ?thesis
          by (simp add: Let_def)
      qed
    qed
  qed
qed

text \<open>
  On bytes the truncation is exact: for a width \<open>> 0\<close> and a string whose escape-stripped
  byte length exceeds the width, the result has exactly \<open>width\<close> escape-stripped bytes,
  ends with the four bytes \<open>ESC [ 0 m\<close>, and what precedes them is a prefix of the input
  that does not end inside an escape sequence.
\<close>

lemma truncateANSI_byte_width:
  assumes "0 < width" and "width < int (length (stripANSI s))"
  shows "length (stripANSI (truncateANSI s width)) = nat width
       \<and> (\<exists>kept. truncateANSI s width = kept @ [CHR 0x1B, CHR ''['', CHR ''0'', CHR ''m'']
              \<and> prefix kept s
              \<and> \<not> inEscape_after False kept
              \<and> stripANSI kept = take (nat width) (stripANSI s))"
proof -
  let ?kept = "truncateANSI_loop (nat width) 0 False s"
  from assms have tr: "truncateANSI s width = ?kept @ resetStyle"
    by (simp add: truncateANSI_def)
  have strip: "stripANSI ?kept = take (nat width) (stripANSI s)"
    using truncateANSI_loop_strip [of 0 "nat width" False s] by (simp add: stripANSI_def)
  from assms have "nat width - 0 < length (stripANSI_loop False s)"
    by (simp add: stripANSI_def)
  then have st: "\<not> inEscape_after False ?kept"
    using truncateANSI_loop_state [of 0 "nat width" False s] by simp
  have "stripANSI (truncateANSI s width) = take (nat width) (stripANSI s)"
    using tr strip by (simp add: stripANSI_def stripANSI_loop_append stripANSI_loop_reset)
  with assms have "length (stripANSI (truncateANSI s width)) = nat width"
    by simp
  with tr strip st truncateANSI_loop_prefix show ?thesis
    unfolding resetStyle_def by blast
qed

lemma RuneCount_Nil: "RuneCountInString [] = 0"
  by (simp add: RuneCountInString_def)

lemma RuneCount_ascii:
  "byte c < 0x80 \<Longrightarrow> RuneCountInString (c # s) = Suc (RuneCountInString s)"
  by (simp add: RuneCountInString_def)

lemma RuneCount_bullet:
  "RuneCountInString (CHR 0xE2 # CHR 0x80 # CHR 0xA2 # s) = Suc (RuneCountInString s)"
  by (simp add: RuneCountInString_def byte_def isCont_def)

lemmas visible_eval =
  RuneCount_Nil RuneCount_ascii RuneCount_bullet byte_def visibleWidth_def stripANSI_def
  ESC_def truncateANSI_def Let_def resetStyle_def

text \<open>
  C9.  The visible length of a string is its number of visible characters
  (\<open>visibleWidth\<close>, a rune count), but \<open>truncateANSI\<close> counts bytes.  The key reference of
  the status line has 135 visible characters; truncated to width 75 it keeps 65 of them.
  Five bullets truncated to width 3 give one bullet followed by \<open>ESC [ 0 m\<close>, one visible
  character; truncated to width 4 the second bullet is cut after its first byte, which
  decodes to \<open>RuneError\<close>.
\<close>

theorem truncateANSI_counts_bytes:
  "visibleWidth statusHelp = 135
   \<and> visibleWidth (truncateANSI statusHelp 75) = 65
   \<and> visibleWidth bullets5 = 5
   \<and> truncateANSI bullets5 3
       = [CHR 0xE2, CHR 0x80, CHR 0xA2, CHR 0x1B, CHR ''['', CHR ''0'', CHR ''m'']
   \<and> visibleWidth (truncateANSI bullets5 3) = 1
   \<and> runes (stripANSI (truncateANSI bullets5 4)) = [0x2022, 0xFFFD]"
proof -
  have "visibleWidth statusHelp = 135"
    by (simp add: visible_eval statusHelp_def)
  moreover have "visibleWidth (truncateANSI statusHelp 75) = 65"
    by (simp add: visible_eval statusHelp_def)
  moreover have "visibleWidth bullets5 = 5"
    by (simp add: visible_eval bullets5_def)
  moreover have "truncateANSI bullets5 3
       = [CHR 0xE2, CHR 0x80, CHR 0xA2, CHR 0x1B, CHR ''['', CHR ''0'', CHR ''m'']"
    by (simp add: visible_eval bullets5_def)
  moreover have "visibleWidth (truncateANSI bullets5 3) = 1"
    by (simp add: visible_eval bullets5_def)
  moreover have "runes (stripANSI (truncateANSI bullets5 4)) = [0x2022, 0xFFFD]"
    by (simp add: visible_eval bullets5_def runes_def isCont_def RuneError_def)
  ultimately show ?thesis by blast
qed

section \<open>Wrap toggle\<close>

text \<open>
  C8.  \<open>toggleWrap\<close> flips the wrap flag and sets the horizontal offset and the
  wrap-segment scroll index to 0; the cursor line and column, the goal column, the top line,
  the line store, the selection and the search state keep their values.  Toggling twice
  gives back the wrap flag, with the cursor line and column preserved.
\<close>

theorem toggleWrap_frame:
  "WrapOn (toggleWrap v) = (\<not> WrapOn v)
   \<and> HOffset (toggleWrap v) = 0
   \<and> TopSub (toggleWrap v) = 0
   \<and> Cursor (toggleWrap v) = Cursor v
   \<and> CursorCol (toggleWrap v) = CursorCol v
   \<and> GoalCol (toggleWrap v) = GoalCol v
   \<and> Top (toggleWrap v) = Top v
   \<and> Lines (toggleWrap v) = Lines v
   \<and> SelectMode (toggleWrap v) = SelectMode v
   \<and> SelectStart (toggleWrap v) = SelectStart v
   \<and> Query (toggleWrap v) = Query v
   \<and> Matches (toggleWrap v) = Matches v
   \<and> MatchIndex (toggleWrap v) = MatchIndex v
   \<and> WrapOn (toggleWrap (toggleWrap v)) = WrapOn v
   \<and> Cursor (toggleWrap (toggleWrap v)) = Cursor v
   \<and> CursorCol (toggleWrap (toggleWrap v)) = CursorCol v"
  by (simp add: toggleWrap_def)

theorem toggleWrap_frame_witness:
  "HOffset viewerScrolled = 5 \<and> TopSub viewerScrolled = 2 \<and> \<not> WrapOn viewerScrolled
   \<and> WrapOn (toggleWrap viewerScrolled)
   \<and> HOffset (toggleWrap viewerScrolled) = 0
   \<and> TopSub (toggleWrap viewerScrolled) = 0
   \<and> Cursor (toggleWrap viewerScrolled) = 1
   \<and> CursorCol (toggleWrap viewerScrolled) = 2
   \<and> \<not> WrapOn (toggleWrap (toggleWrap viewerScrolled))"
  using toggleWrap_frame [of viewerScrolled]
  by (simp add: viewerScrolled_def newViewer_def)

section \<open>Appending lines\<close>




section \<open>Colorization keeps the visible text\<close>

lemma strings_Join_bytes:
  "\<forall>e \<in> set elems. \<forall>c \<in> set e. P c \<Longrightarrow> \<forall>c \<in> set sep. P c \<Longrightarrow>
   \<forall>c \<in> set (strings_Join elems sep). P c"
  by (induction elems sep rule: strings_Join.induct) auto

lemma ansiStyles_bytes: "ansiStyles k = Some v \<Longrightarrow> \<forall>c \<in> set v. codeByte c"
  by (auto simp: ansiStyles_def codeByte_def ESC_def split: if_splits)

lemma ansiColors_bytes: "ansiColors k = Some v \<Longrightarrow> \<forall>c \<in> set v. codeByte c"
  by (auto simp: ansiColors_def codeByte_def ESC_def split: if_splits)

lemma colorCode_bytes: "\<forall>c \<in> set (colorCode L cn st). codeByte c"
proof -
  define parts1 where "parts1 =
    (if strings_ToLower L st \<noteq> [] then
       (case ansiStyles (strings_ToLower L st) of Some s \<Rightarrow> [s] | None \<Rightarrow> [])
     else [])"
  define parts2 where "parts2 =
    (if strings_ToLower L cn \<noteq> [] then
       (case ansiColors (strings_ToLower L cn) of Some c \<Rightarrow> parts1 @ [c] | None \<Rightarrow> parts1)
     else parts1)"
  have "parts1 = [] \<or> (\<exists>s. ansiStyles (strings_ToLower L st) = Some s \<and> parts1 = [s])"
    by (cases "ansiStyles (strings_ToLower L st)") (simp_all add: parts1_def)
  then have p1: "\<forall>e \<in> set parts1. \<forall>c \<in> set e. codeByte c"
    using ansiStyles_bytes by fastforce
  have "parts2 = parts1
      \<or> (\<exists>s. ansiColors (strings_ToLower L cn) = Some s \<and> parts2 = parts1 @ [s])"
    by (cases "ansiColors (strings_ToLower L cn)") (simp_all add: parts2_def)
  then have p2: "\<forall>e \<in> set parts2. \<forall>c \<in> set e. codeByte c"
    using p1 ansiColors_bytes by fastforce
  have "\<forall>c \<in> set (strings_Join parts2 '';''). codeByte c"
    by (rule strings_Join_bytes [OF p2]) (simp add: codeByte_def ESC_def)
  moreover have "colorCode L cn st = strings_Join parts2 '';''"
    unfolding colorCode_def Let_def parts1_def parts2_def by (rule refl)
  ultimately show ?thesis by simp
qed

lemma stripANSI_loop_code:
  "ESC \<notin> set code \<Longrightarrow> CHR ''m'' \<notin> set code \<Longrightarrow>
   stripANSI_loop True (code @ CHR ''m'' # rest) = stripANSI_loop False rest"
  by (induction code) (auto simp: ESC_def)

lemma stripANSI_loop_plain:
  "ESC \<notin> set t \<Longrightarrow> stripANSI_loop False (t @ rest) = t @ stripANSI_loop False rest"
  by (induction t) auto

lemma stripANSI_loop_Wrap:
  assumes "ESC \<notin> set t"
  shows "stripANSI_loop False (Wrap L t c st @ rest) = t @ stripANSI_loop False rest"
proof (cases "colorCode L c st = []")
  case True
  with assms show ?thesis by (simp add: Wrap_def stripANSI_loop_plain)
next
  case False
  have "ESC \<notin> set (colorCode L c st)" "CHR ''m'' \<notin> set (colorCode L c st)"
    using colorCode_bytes [of L c st] by (auto simp: codeByte_def)
  then have "stripANSI_loop True (colorCode L c st @ CHR ''m'' # (t @ reset @ rest))
             = stripANSI_loop False (t @ reset @ rest)"
    by (rule stripANSI_loop_code)
  also have "\<dots> = t @ stripANSI_loop False (reset @ rest)"
    using assms by (rule stripANSI_loop_plain)
  also have "stripANSI_loop False (reset @ rest) = stripANSI_loop False rest"
    by (simp add: reset_def ESC_def)
  finally show ?thesis using False by (simp add: Wrap_def ESC_def)
qed

lemma slice_drop: "i \<le> j \<Longrightarrow> slice s i j @ drop j s = drop i s"
  by (metis add_diff_inverse_nat drop_drop linorder_not_less slice_def append_take_drop_id
      add.commute)

lemma set_slice: "set (slice s i j) \<subseteq> set s"
  unfolding slice_def by (meson dual_order.trans set_drop_subset set_take_subset)

lemma strip_stitch:
  assumes "ESC \<notin> set line" and "\<forall>sp \<in> set spans. span_start sp \<le> span_end sp"
  shows "stripANSI_loop False (stitch L line pos spans) = drop pos line"
  using assms(2)
proof (induction spans arbitrary: pos)
  case Nil
  have "ESC \<notin> set (drop pos line)" using assms(1) by (meson in_set_dropD)
  then show ?case using stripANSI_loop_plain [of "drop pos line" "[]"] by simp
next
  case (Cons sp spans)
  show ?case
  proof (cases "span_start sp < pos")
    case True
    with Cons show ?thesis by simp
  next
    case False
    have a: "ESC \<notin> set (slice line pos (span_start sp))"
      and b: "ESC \<notin> set (slice line (span_start sp) (span_end sp))"
      using assms(1) set_slice by fastforce+
    from Cons have IH:
      "stripANSI_loop False (stitch L line (span_end sp) spans) = drop (span_end sp) line"
      by simp
    from Cons.prems have le: "span_start sp \<le> span_end sp" by simp
    from False have le2: "pos \<le> span_start sp" by simp
    show ?thesis
      using False
      by (simp add: stripANSI_loop_plain [OF a] stripANSI_loop_Wrap [OF b] IH
            slice_drop [OF le] slice_drop [OF le2])
  qed
qed

lemma claimMatches_ordered:
  "\<forall>sp \<in> set (snd st). span_start sp \<le> span_end sp \<Longrightarrow>
   \<forall>sp \<in> set (snd (claimMatches rule ms st)). span_start sp \<le> span_end sp"
  by (induction rule ms st rule: claimMatches.induct) auto

lemma claimRules_ordered:
  "\<forall>sp \<in> set (snd st). span_start sp \<le> span_end sp \<Longrightarrow>
   \<forall>sp \<in> set (snd (claimRules line rules st)). span_start sp \<le> span_end sp"
  by (induction line rules st rule: claimRules.induct) (auto simp: claimMatches_ordered)

text \<open>
  C10.  For a line without the byte ESC and any rule list, stripping the escape sequences
  from the output of \<open>ApplyRules\<close> gives back the line.
\<close>

theorem ApplyRules_visible_text:
  assumes "ESC \<notin> set line"
  shows "stripANSI (ApplyRules L line rules) = line"
proof -
  have plain: "stripANSI line = line"
    using stripANSI_loop_plain [OF assms, of "[]"] by (simp add: stripANSI_def)
  have "\<forall>sp \<in> set (sortSpans (collectSpans line rules)). span_start sp \<le> span_end sp"
    using claimRules_ordered [of "(replicate (length line) False, [])" line rules]
    by (simp add: sortSpans_def collectSpans_def)
  from strip_stitch [OF assms this, of L 0] plain show ?thesis
    by (simp add: ApplyRules_def Let_def stripANSI_def)
qed

lemma ApplyRules_getRule:
  "ApplyRules sampleLib ''GET /x'' [getRule]
   = [CHR 0x1B] @ ''[31mGET'' @ [CHR 0x1B] @ ''[0m /x''"
  by (simp add: ApplyRules_def collectSpans_def isOccupied_def occupy_def sortSpans_def
        Wrap_def colorCode_def strings_ToLower_def isASCII_def asciiLower_def byte_def
        ansiColors_def ansiStyles_def slice_def reset_def Let_def sampleLib_def upt_rec
        getRule_def char_of_def bit_iff_odd)

theorem ApplyRules_visible_text_witness:
  "CHR 0x1B \<notin> set ''GET /x''
   \<and> ApplyRules sampleLib ''GET /x'' [getRule]
       = [CHR 0x1B] @ ''[31mGET'' @ [CHR 0x1B] @ ''[0m /x''
   \<and> stripANSI ([CHR 0x1B] @ ''[31mGET'' @ [CHR 0x1B] @ ''[0m /x'') = ''GET /x''"
proof -
  have noesc: "ESC \<notin> set ''GET /x''" by (simp add: ESC_def)
  from ApplyRules_visible_text [OF noesc, of sampleLib "[getRule]"]
  show ?thesis by (simp add: ApplyRules_getRule)
qed

section \<open>Word motion at the end of the text\<close>

lemma chunks_ascii: "byte c < 0x80 \<Longrightarrow> chunks (c # s) = (byte c, [c]) # chunks s"
  by simp

lemmas viewer_eval = newViewer_def lineCount_def lineRuneCount_def RuneCountInString_def
  runes_def chunks_ascii byte_def clampCursor_def maxColOf_def Let_def

lemma skipRunes_all:
  "pos \<le> length line \<Longrightarrow> \<forall>j. pos \<le> j \<and> j < length line \<longrightarrow> p (line ! j) \<Longrightarrow>
   skipRunes p line pos = length line"
proof (induction p line pos rule: skipRunes.induct)
  case (1 p line pos)
  show ?case
  proof (cases "pos < length line")
    case True
    with "1.prems" have "p (line ! pos)" by simp
    with True "1.IH" "1.prems" show ?thesis
      by (subst skipRunes.simps) simp
  next
    case False
    with "1.prems" show ?thesis by (subst skipRunes.simps) simp
  qed
qed

lemma skipRunes_one:
  assumes "pos < length line" and "p (line ! pos)"
    and "Suc pos < length line \<longrightarrow> \<not> p (line ! Suc pos)"
  shows "skipRunes p line pos = Suc pos"
proof -
  have "skipRunes p line pos = skipRunes p line (Suc pos)"
    using assms(1,2) by (subst skipRunes.simps) simp
  also have "\<dots> = Suc pos"
    using assms(3) by (subst skipRunes.simps) auto
  finally show ?thesis .
qed

lemma landAt_last_rune:
  assumes "0 \<le> Cursor v" and "Cursor v < lineCount v"
    and "runes (Lines v ! nat (Cursor v)) \<noteq> []"
  shows "Cursor (landAt v (Cursor v) (int (length (runes (Lines v ! nat (Cursor v)))) - 1))
           = Cursor v
       \<and> CursorCol (landAt v (Cursor v) (int (length (runes (Lines v ! nat (Cursor v)))) - 1))
           = int (length (runes (Lines v ! nat (Cursor v)))) - 1
       \<and> Lines (landAt v (Cursor v) (int (length (runes (Lines v ! nat (Cursor v)))) - 1))
           = Lines v"
proof -
  from assms(1,2) have "Lines v \<noteq> []" by (auto simp: lineCount_def)
  with assms show ?thesis
    by (auto simp: landAt_def clampCursor_def maxColOf_def lineRuneCount_def lineCount_def
          RuneCountInString_def runes_def Let_def)
qed

text \<open>
  C6, as the code has it.  The cursor is on the last line, on a word-constituent rune after
  which the line has no further word-constituent rune.  Then \<open>moveWordForward\<close> returns, the
  cursor stays on the last line (no wrap-around) and lands on the last rune of that line.
  So the position is unchanged when the last word-constituent rune is the last rune of the
  line; when other runes follow it, the column moves to the last of them.
\<close>

theorem moveWordForward_last_word:
  assumes "Lines v \<noteq> []" and "Cursor v = lineCount v - 1"
    and "line = runes (Lines v ! nat (Cursor v))"
    and "0 \<le> CursorCol v" and "nat (CursorCol v) < length line"
    and "isWordRune L (line ! nat (CursorCol v))"
    and "\<forall>j. nat (CursorCol v) < j \<and> j < length line \<longrightarrow> \<not> isWordRune L (line ! j)"
  shows "\<exists>v'. moveWordForward L v = Inr v'
            \<and> Lines v' = Lines v
            \<and> Cursor v' = Cursor v
            \<and> CursorCol v' = int (length line) - 1
            \<and> (CursorCol v = int (length line) - 1 \<longrightarrow> CursorCol v' = CursorCol v)"
proof -
  let ?pos0 = "nat (CursorCol v)"
  from assms(1,2) have inrange: "0 \<le> Cursor v" "Cursor v < lineCount v"
    by (simp_all add: lineCount_def)
  from assms(5) have nonempty: "line \<noteq> []" by auto
  have p1: "skipRunes (isWordRune L) line ?pos0 = Suc ?pos0"
    using assms(5,6,7) by (intro skipRunes_one) auto
  have p2: "skipRunes (\<lambda>r. \<not> isWordRune L r) line (Suc ?pos0) = length line"
    using assms(5,7) by (intro skipRunes_all) auto
  have "wordForwardLoop L v (Cursor v) (CursorCol v)
          = Inr (landAt v (Cursor v) (int (length line) - 1))"
    using inrange nonempty assms(2,4,5,6) p1 p2 assms(3) [symmetric]
    by (subst wordForwardLoop.simps) (simp add: Let_def)
  moreover note landAt_last_rune [OF inrange] nonempty assms(1,3)
  ultimately show ?thesis
    by (simp add: moveWordForward_def)
qed

theorem moveWordForward_last_word_witness:
  "moveWordForward sampleLib viewerLastRune = Inr (viewerLastRune\<lparr>Status := []\<rparr>)
   \<and> Cursor viewerLastRune = 1 \<and> CursorCol viewerLastRune = 1
   \<and> (\<exists>v'. moveWordForward sampleLib viewerLastRune = Inr v'
            \<and> Cursor v' = 1 \<and> CursorCol v' = 1)"
proof -
  have ev: "moveWordForward sampleLib viewerLastRune = Inr (viewerLastRune\<lparr>Status := []\<rparr>)"
    by (simp add: viewerLastRune_def moveWordForward_def wordForwardLoop.simps
          skipRunes.simps landAt_def landAtGoal_def isWordRune_def sampleLib_def viewer_eval)
  have line: "runes (Lines viewerLastRune ! nat (Cursor viewerLastRune)) = [0x63, 0x64]"
    by (simp add: viewerLastRune_def viewer_eval)
  have "\<exists>v'. moveWordForward sampleLib viewerLastRune = Inr v'
            \<and> Lines v' = Lines viewerLastRune
            \<and> Cursor v' = Cursor viewerLastRune
            \<and> CursorCol v' = int (length [0x63::nat, 0x64]) - 1
            \<and> (CursorCol viewerLastRune = int (length [0x63::nat, 0x64]) - 1
                 \<longrightarrow> CursorCol v' = CursorCol viewerLastRune)"
    by (rule moveWordForward_last_word [of viewerLastRune "[0x63, 0x64]" sampleLib])
       (simp_all add: line isWordRune_def sampleLib_def,
        simp_all add: viewerLastRune_def newViewer_def lineCount_def nth_Cons')
  then show ?thesis
    using ev by (simp add: viewerLastRune_def newViewer_def)
qed

text \<open>
  The claim as stated fails when runes that are not word constituents follow the last word:
  in \<open>ab.\<close> with the cursor on \<open>b\<close> (column 1), \<open>moveWordForward\<close> moves the cursor to
  column 2.
\<close>

theorem moveWordForward_counterexample:
  "Lines viewerLastWord = [''ab.''] \<and> Cursor viewerLastWord = 0 \<and> CursorCol viewerLastWord = 1
   \<and> isWordRune sampleLib (runes ''ab.'' ! 1) \<and> \<not> isWordRune sampleLib (runes ''ab.'' ! 2)
   \<and> moveWordForward sampleLib viewerLastWord = Inr (viewerLastWord\<lparr>CursorCol := 2\<rparr>)
   \<and> CursorCol (viewerLastWord\<lparr>CursorCol := 2\<rparr>) \<noteq> CursorCol viewerLastWord"
  by (simp add: viewerLastWord_def moveWordForward_def wordForwardLoop.simps skipRunes.simps
        landAt_def landAtGoal_def isWordRune_def sampleLib_def viewer_eval)

end
